theory Spec2Isabelle
  imports Main
begin

section \<open>GoogleScraper: the scraping module (scraping.py)\<close>

text \<open>
  A shallow embedding of \<^verbatim>\<open>GoogleScraper/scraping.py\<close>: the base-URL resolution,
  the methods of the abstract class \<^verbatim>\<open>SearchEngineScrape\<close> and the class
  \<^verbatim>\<open>ScrapeWorkerFactory\<close>. Python objects are records that are passed in and
  returned updated, a raised exception is a value of the type \<open>error\<close>, a dictionary
  whose order matters is an association list in insertion order, and the random number
  generator and the file system are arguments.
\<close>

subsection \<open>Values, exceptions and the configuration\<close>

datatype error =
    AssertionError | ZeroDivisionError | AttributeError | KeyError | IndexError
  | ValueError | TypeError | IsADirectoryError

text \<open>
  A sleeping range is the pair \<^verbatim>\<open>(min, max)\<close>; the table of sleeping ranges is a
  dictionary from the interval \<open>n\<close> ("every n-th search") to a range. Python's integers are
  unbounded, so both are over \<open>int\<close>.
\<close>

type_synonym sleep_range = "int \<times> int"

type_synonym range_table = "(int \<times> sleep_range) list"

text \<open>
  The configuration is a dictionary from strings to values of several Python types: strings
  (URLs, file names), integers, booleans and the table of sleeping ranges.
\<close>

datatype cfg_val = CStr string | CInt int | CBool bool | CRanges range_table

type_synonym config = "string \<rightharpoonup> cfg_val"

text \<open>Python's truth value of a configuration value (\<^verbatim>\<open>if v:\<close>, \<^verbatim>\<open>not v\<close>).\<close>

fun truthy :: "cfg_val \<Rightarrow> bool" where
  "truthy (CStr s) = (s \<noteq> [])"
| "truthy (CInt i) = (i \<noteq> 0)"
| "truthy (CBool b) = b"
| "truthy (CRanges d) = (d \<noteq> [])"

text \<open>\<^verbatim>\<open>config.get(key, default)\<close>.\<close>

definition cfg_get :: "config \<Rightarrow> string \<Rightarrow> cfg_val \<Rightarrow> cfg_val" where
  "cfg_get cfg key dflt = (case cfg key of None \<Rightarrow> dflt | Some v \<Rightarrow> v)"

subsection \<open>Dictionaries in insertion order\<close>

text \<open>
  \<^verbatim>\<open>d.keys()\<close> of a dictionary held as an association list: every key once, in the
  order of its first insertion. \<^verbatim>\<open>d[k]\<close> is \<open>map_of d k\<close>.
\<close>

fun dict_keys :: "('k \<times> 'v) list \<Rightarrow> 'k list" where
  "dict_keys [] = []"
| "dict_keys ((k, v) # d) = k # filter (\<lambda>k'. k' \<noteq> k) (dict_keys d)"

text \<open>\<^verbatim>\<open>sorted(ks, reverse=True)\<close> on integers.\<close>

definition sorted_reverse :: "int list \<Rightarrow> int list" where
  "sorted_reverse ks = rev (sort ks)"

subsection \<open>The session: class SearchEngineScrape\<close>

text \<open>
  The \<^verbatim>\<open>Proxy\<close> tuple comes from \<^verbatim>\<open>GoogleScraper.proxies\<close>; the class reads its
  \<^verbatim>\<open>host\<close> and \<^verbatim>\<open>port\<close>.
\<close>

record proxy_t =
  proto :: string
  host :: string
  port :: string
  username :: string
  password :: string

text \<open>
  One call of the cache manager's \<^verbatim>\<open>cache_results(parser, query, search_engine_name,
  scrape_method, page_number, db_lock=...)\<close>: the parser handed over (the page it has
  parsed, or \<open>None\<close>) and the four values of the key.
\<close>

record cache_call =
  cached_parser :: "string option"
  cached_query :: string
  cached_search_engine :: string
  cached_scrape_method :: string
  cached_page_number :: int

text \<open>
  A stored result page (\<^verbatim>\<open>parse_serp\<close> of \<^verbatim>\<open>GoogleScraper.parsing\<close>): the query it
  belongs to and the number of results the parser found.
\<close>

record serp =
  serp_query :: string
  num_results :: nat

datatype lock = Lock

text \<open>
  The fields of a \<^verbatim>\<open>SearchEngineScrape\<close> object. The collaborators are held as what
  the class does to them: the cache manager as the list of calls it has received, the
  progress queue as the list of items put into it, the database session and the
  \<^verbatim>\<open>scraper_search\<close> object as the list of result pages added, the parser as the page it
  has parsed last; \<open>None\<close> is Python's \<^verbatim>\<open>None\<close>. \<open>current_delay\<close> is not set by the
  constructor: it is \<open>None\<close> until the first sleep.
\<close>

record search_engine_scrape =
  config :: config
  cache_manager :: "cache_call list option"
  search_engine_name :: string
  search_type :: cfg_val
  jobs :: "(string \<times> int list) list"
  missed_keywords :: "string set"
  num_keywords :: nat
  query :: string
  pages_per_keyword :: "int list"
  search_number :: int
  parser :: "string option"
  num_results_per_page :: int
  start_page_pos :: int
  page_number :: int
  proxy :: "proxy_t option"
  requested_by :: string
  proxies :: "proxy_t list option"
  proxy_quarantine :: "proxy_t list option"
  scraper_search :: "serp list option"
  scrape_method :: string
  startable :: bool
  db_lock :: "lock option"
  cache_lock :: "lock option"
  progress_queue :: "int list option"
  session :: "serp list option"
  requested_at :: "nat option"
  name :: string
  sleeping_ranges :: "cfg_val option"
  timeout :: int
  status :: string
  html :: string
  keyword_planner :: "cfg_val option"
  current_delay :: "int option"

subsection \<open>The sleep-range lookup\<close>

text \<open>
  The loop \<^verbatim>\<open>for n in s: if search_number % n == 0: return self.sleeping_ranges[n]\<close>.
  Python's \<^verbatim>\<open>%\<close> raises ZeroDivisionError on a zero divisor; on integers it is the
  floored remainder, as \<open>mod\<close> on \<open>int\<close> is. Falling out of the loop reaches
  \<^verbatim>\<open>return 1, 2\<close>.
\<close>

fun first_dividing :: "range_table \<Rightarrow> int \<Rightarrow> int list \<Rightarrow> error + sleep_range" where
  "first_dividing d k [] = Inr (1, 2)"
| "first_dividing d k (n # s) =
     (if n = 0 then Inl ZeroDivisionError
      else if k mod n = 0 then
        (case map_of d n of None \<Rightarrow> Inl KeyError | Some r \<Rightarrow> Inr r)
      else first_dividing d k s)"

text \<open>
  \<^verbatim>\<open>_largest_sleep_range(self, search_number)\<close>, with \<open>k\<close> for the argument
  \<^verbatim>\<open>search_number\<close> (the name is the field's in this theory). \<^verbatim>\<open>self.sleeping_ranges.keys()\<close>
  raises AttributeError when the field is \<^verbatim>\<open>None\<close> or a value without keys.
\<close>

definition largest_sleep_range :: "search_engine_scrape \<Rightarrow> int \<Rightarrow> error + sleep_range" where
  "largest_sleep_range self k =
     (if \<not> k \<ge> 0 then Inl AssertionError
      else if k \<noteq> 0 then
        (case sleeping_ranges self of
           Some (CRanges d) \<Rightarrow> first_dividing d k (sorted_reverse (dict_keys d))
         | _ \<Rightarrow> Inl AttributeError)
      else Inr (1, 2))"

subsection \<open>Paging\<close>

text \<open>\<^verbatim>\<open>next_page(self)\<close>: \<^verbatim>\<open>self.start_page_pos += 1\<close>.\<close>

definition next_page :: "search_engine_scrape \<Rightarrow> search_engine_scrape" where
  "next_page self = self\<lparr>start_page_pos := start_page_pos self + 1\<rparr>"

subsection \<open>Python's built-in conversions\<close>

text \<open>
  \<^verbatim>\<open>str(i)\<close> of an integer, as \<^verbatim>\<open>'{}'.format(i)\<close> inserts it: the decimal digits,
  with a minus sign for a negative number.
\<close>

definition digit_char :: "nat \<Rightarrow> char" where
  "digit_char n = char_of (48 + n)"

function str_nat :: "nat \<Rightarrow> string" where
  "str_nat n = (if n < 10 then [digit_char n] else str_nat (n div 10) @ [digit_char (n mod 10)])"
  by pat_completeness auto
termination
  by (relation "measure id") auto

declare str_nat.simps [simp del]

definition str_int :: "int \<Rightarrow> string" where
  "str_int i = (if i < 0 then CHR ''-'' # str_nat (nat (- i)) else str_nat (nat i))"

text \<open>
  \<^verbatim>\<open>int(v)\<close> of a configuration value. Of a string, \<^verbatim>\<open>int\<close> takes the decimal digits,
  single underscores between digits, a sign in front and blanks around, and raises
  ValueError on anything else; of a dictionary it raises TypeError. Strings are byte
  strings here, so the digits and blanks are the ASCII ones.
\<close>

definition is_digit :: "char \<Rightarrow> bool" where
  "is_digit c = (48 \<le> (of_char c :: nat) \<and> (of_char c :: nat) \<le> 57)"

definition is_space :: "char \<Rightarrow> bool" where
  "is_space c = ((of_char c :: nat) \<in> {9, 10, 11, 12, 13, 28, 29, 30, 31, 32})"

fun digits_val :: "nat \<Rightarrow> string \<Rightarrow> nat option" where
  "digits_val acc [] = Some acc"
| "digits_val acc (c # cs) =
     (if is_digit c then digits_val (10 * acc + (of_char c - 48)) cs
      else if c = CHR ''_'' \<and> cs \<noteq> [] \<and> is_digit (hd cs) then digits_val acc cs
      else None)"

definition strip :: "string \<Rightarrow> string" where
  "strip s = rev (dropWhile is_space (rev (dropWhile is_space s)))"

definition int_of_digits :: "string \<Rightarrow> error + int" where
  "int_of_digits s =
     (case s of
        [] \<Rightarrow> Inl ValueError
      | c # cs \<Rightarrow>
          if is_digit c then
            (case digits_val 0 s of None \<Rightarrow> Inl ValueError | Some n \<Rightarrow> Inr (int n))
          else Inl ValueError)"

definition int_of_string :: "string \<Rightarrow> error + int" where
  "int_of_string s =
     (case strip s of
        [] \<Rightarrow> Inl ValueError
      | c # cs \<Rightarrow>
          if c = CHR ''-'' then map_sum id uminus (int_of_digits cs)
          else if c = CHR ''+'' then int_of_digits cs
          else int_of_digits (c # cs))"

fun py_int :: "cfg_val \<Rightarrow> error + int" where
  "py_int (CInt i) = Inr i"
| "py_int (CBool b) = Inr (if b then 1 else 0)"
| "py_int (CStr s) = int_of_string s"
| "py_int (CRanges d) = Inl TypeError"

text \<open>\<^verbatim>\<open>s.lower()\<close> on ASCII letters.\<close>

definition lower_char :: "char \<Rightarrow> char" where
  "lower_char c =
     (if 65 \<le> (of_char c :: nat) \<and> (of_char c :: nat) \<le> 90
      then char_of ((of_char c :: nat) + 32) else c)"

definition lower :: "string \<Rightarrow> string" where
  "lower s = map lower_char s"

subsection \<open>The constructor of SearchEngineScrape\<close>

text \<open>
  The arguments of \<^verbatim>\<open>__init__\<close>, each under the name of its parameter with \<open>arg_\<close> in
  front; \<open>None\<close> is the default of every keyword but \<^verbatim>\<open>start_page_pos\<close>, whose default is
  1. \<open>arg_class_name\<close> is \<^verbatim>\<open>self.__class__.__name__\<close>, the name of the subclass that is
  instantiated.
\<close>

record init_args =
  arg_config :: config
  arg_cache_manager :: "cache_call list option"
  arg_jobs :: "(string \<times> int list) list option"
  arg_scraper_search :: "serp list option"
  arg_session :: "serp list option"
  arg_db_lock :: "lock option"
  arg_cache_lock :: "lock option"
  arg_start_page_pos :: "int option"
  arg_search_engine :: "string option"
  arg_search_type :: "string option"
  arg_proxy :: "proxy_t option"
  arg_proxies :: "proxy_t list option"
  arg_proxy_quarantine :: "proxy_t list option"
  arg_progress_queue :: "int list option"
  arg_class_name :: string

text \<open>
  \<^verbatim>\<open>if start_page_pos: ... else: int(self.config.get('search_offset', 1))\<close>: \<^verbatim>\<open>None\<close>
  and 0 are false.
\<close>

definition init_start_page_pos :: "config \<Rightarrow> int option \<Rightarrow> error + int" where
  "init_start_page_pos cfg spp =
     (case spp of
        None \<Rightarrow> py_int (cfg_get cfg ''search_offset'' (CInt 1))
      | Some n \<Rightarrow>
          if n \<noteq> 0 then Inr (if n < 1 then 1 else n)
          else py_int (cfg_get cfg ''search_offset'' (CInt 1)))"

text \<open>
  The assignments of \<^verbatim>\<open>SearchEngineScrape.__init__\<close>, for the search engine, the
  number of results per page and the start page that the constructor has computed. The
  parser is built by \<^verbatim>\<open>get_parser_by_search_engine\<close> of \<^verbatim>\<open>GoogleScraper.parsing\<close>; it
  is a parser that has parsed nothing yet. \<^verbatim>\<open>set_proxy\<close> is abstract and acts on the
  transport of the subclass, which is no field of this class.
\<close>

definition init_object :: "init_args \<Rightarrow> string \<Rightarrow> int \<Rightarrow> int \<Rightarrow> search_engine_scrape" where
  "init_object a engine per_page spp =
     \<lparr>config = arg_config a,
      cache_manager = arg_cache_manager a,
      search_engine_name = lower engine,
      search_type =
        (case arg_search_type a of
           None \<Rightarrow> cfg_get (arg_config a) ''search_type'' (CStr ''normal'')
         | Some t \<Rightarrow>
             if t = [] then cfg_get (arg_config a) ''search_type'' (CStr ''normal'')
             else CStr t),
      jobs = (case arg_jobs a of None \<Rightarrow> [] | Some js \<Rightarrow> js),
      missed_keywords = {},
      num_keywords = length (dict_keys (case arg_jobs a of None \<Rightarrow> [] | Some js \<Rightarrow> js)),
      query = [],
      pages_per_keyword = [1],
      search_number = 1,
      parser = Some [],
      num_results_per_page = per_page,
      start_page_pos = spp,
      page_number = spp,
      proxy = arg_proxy a,
      requested_by = (case arg_proxy a of None \<Rightarrow> ''localhost'' | Some p \<Rightarrow> host p @ '':'' @ port p),
      proxies = arg_proxies a,
      proxy_quarantine = arg_proxy_quarantine a,
      scraper_search = arg_scraper_search a,
      scrape_method = [],
      startable = True,
      db_lock = arg_db_lock a,
      cache_lock = arg_cache_lock a,
      progress_queue = arg_progress_queue a,
      session = arg_session a,
      requested_at = None,
      name = ''['' @ lower engine @ '']'' @ arg_class_name a,
      sleeping_ranges =
        (case arg_config a (lower engine @ ''_sleeping_ranges'') of
           None \<Rightarrow> arg_config a ''sleeping_ranges''
         | Some v \<Rightarrow> Some v),
      timeout = 5,
      status = ''successful'',
      html = [],
      keyword_planner = arg_config a ''keyword_planner'',
      current_delay = None\<rparr>"

text \<open>
  \<^verbatim>\<open>SearchEngineScrape.__init__\<close>, in the order of its statements that may raise: the
  assertion on the search engine, then the two \<^verbatim>\<open>int(...)\<close> conversions.
\<close>

definition init :: "init_args \<Rightarrow> error + search_engine_scrape" where
  "init a =
     (case arg_search_engine a of
        None \<Rightarrow> Inl AssertionError
      | Some engine \<Rightarrow>
          if engine = [] then Inl AssertionError
          else
            (case py_int (cfg_get (arg_config a) ''num_results_per_page'' (CInt 10)) of
               Inl e \<Rightarrow> Inl e
             | Inr per_page \<Rightarrow>
                 (case init_start_page_pos (arg_config a) (arg_start_page_pos a) of
                    Inl e \<Rightarrow> Inl e
                  | Inr spp \<Rightarrow> Inr (init_object a engine per_page spp))))"

text \<open>
  The call \<^verbatim>\<open>cls(config, search_engine=engine)\<close> of a subclass \<^verbatim>\<open>cls\<close> that hands its
  arguments on to this constructor, every other keyword at its default.
\<close>

definition default_args :: "config \<Rightarrow> string \<Rightarrow> string \<Rightarrow> init_args" where
  "default_args cfg engine cls =
     \<lparr>arg_config = cfg, arg_cache_manager = None, arg_jobs = None, arg_scraper_search = None,
      arg_session = None, arg_db_lock = None, arg_cache_lock = None,
      arg_start_page_pos = Some 1, arg_search_engine = Some engine, arg_search_type = None,
      arg_proxy = None, arg_proxies = None, arg_proxy_quarantine = None,
      arg_progress_queue = None, arg_class_name = cls\<rparr>"

subsection \<open>Detection and the pre-flight check\<close>

text \<open>
  \<^verbatim>\<open>handle_request_denied(self, status_code)\<close>:
  \<^verbatim>\<open>self.status = 'Malicious request detected: {}'.format(status_code)\<close>.
\<close>

definition handle_request_denied :: "search_engine_scrape \<Rightarrow> int \<Rightarrow> search_engine_scrape" where
  "handle_request_denied self status_code =
     self\<lparr>status := ''Malicious request detected: '' @ str_int status_code\<rparr>"

text \<open>
  \<^verbatim>\<open>before_search(self)\<close>. \<^verbatim>\<open>proxy_check\<close> is abstract: the argument \<open>proxy_check\<close> is
  the truth value the subclass's method returns for the session and its proxy. A
  \<^verbatim>\<open>Proxy\<close> tuple is true, \<^verbatim>\<open>None\<close> is false.
\<close>

definition before_search ::
  "(search_engine_scrape \<Rightarrow> proxy_t \<Rightarrow> bool) \<Rightarrow> search_engine_scrape \<Rightarrow> search_engine_scrape" where
  "before_search proxy_check self =
     (if truthy (cfg_get (config self) ''check_proxies'' (CBool True)) \<and> proxy self \<noteq> None then
        (if \<not> proxy_check self (the (proxy self)) then self\<lparr>startable := False\<rparr> else self)
      else self)"

subsection \<open>After a search: storing, progress and the cache\<close>

text \<open>
  \<^verbatim>\<open>store(self)\<close>. Its result is the value returned or the exception raised, together
  with the object as the call leaves it (an assignment made before an exception stays).
  \<^verbatim>\<open>parse_serp\<close> of \<^verbatim>\<open>GoogleScraper.parsing\<close> is the argument \<open>parse_serp\<close>: the result
  page it builds from the session (its configuration, parser and query). A method call on
  \<^verbatim>\<open>None\<close> (\<^verbatim>\<open>self.parser.parse\<close>, \<^verbatim>\<open>self.scraper_search.serps\<close>) and
  \<^verbatim>\<open>with None:\<close> raise; \<^verbatim>\<open>session.add\<close> and \<^verbatim>\<open>session.commit\<close> add the page to the
  database session.
\<close>

definition store ::
  "(search_engine_scrape \<Rightarrow> serp) \<Rightarrow> search_engine_scrape \<Rightarrow> (error + bool) \<times> search_engine_scrape" where
  "store parse_serp self =
     (if session self = None then (Inl AssertionError, self)
      else if html self \<noteq> [] \<and> parser self = None then (Inl AttributeError, self)
      else
        (let s1 = self\<lparr>parser := (if html self \<noteq> [] then Some (html self) else None)\<rparr> in
         if db_lock s1 = None then (Inl AttributeError, s1)
         else
           (let sp = parse_serp s1 in
            case scraper_search s1 of
              None \<Rightarrow> (Inl AttributeError, s1)
            | Some serps \<Rightarrow>
                (Inr (num_results sp \<noteq> 0),
                 s1\<lparr>scraper_search := Some (serps @ [sp]),
                    session := Some (the (session s1) @ [sp])\<rparr>))))"

text \<open>
  \<^verbatim>\<open>cache_results(self)\<close>: one call of the cache manager's \<^verbatim>\<open>cache_results\<close> with the
  parser, \<^verbatim>\<open>self.query\<close>, \<^verbatim>\<open>self.search_engine_name\<close>, \<^verbatim>\<open>self.scrape_method\<close> and
  \<^verbatim>\<open>self.page_number\<close>.
\<close>

definition cache_results :: "search_engine_scrape \<Rightarrow> error option \<times> search_engine_scrape" where
  "cache_results self =
     (case cache_manager self of
        None \<Rightarrow> (Some AttributeError, self)
      | Some calls \<Rightarrow>
          (None,
           self\<lparr>cache_manager :=
             Some (calls @
               [\<lparr>cached_parser = parser self, cached_query = query self,
                 cached_search_engine = search_engine_name self,
                 cached_scrape_method = scrape_method self,
                 cached_page_number = page_number self\<rparr>])\<rparr>))"

text \<open>
  \<^verbatim>\<open>after_search(self)\<close>. The result is the exception raised, or \<open>None\<close> when the call
  returns, with the object as the call leaves it. A queue object is true, \<^verbatim>\<open>None\<close> is
  false; \<^verbatim>\<open>put(1)\<close> adds the item 1 at the end of the queue.
\<close>

definition after_search ::
  "(search_engine_scrape \<Rightarrow> serp) \<Rightarrow> search_engine_scrape \<Rightarrow> error option \<times> search_engine_scrape" where
  "after_search parse_serp self =
     (let s1 = self\<lparr>search_number := search_number self + 1\<rparr> in
      case store parse_serp s1 of
        (Inl e, s2) \<Rightarrow> (Some e, s2)
      | (Inr stored, s2) \<Rightarrow>
          cache_results
            (case progress_queue s2 of
               None \<Rightarrow> s2
             | Some q \<Rightarrow> s2\<lparr>progress_queue := Some (q @ [1])\<rparr>))"

subsection \<open>The sleep against detection\<close>

text \<open>
  \<^verbatim>\<open>random.randrange(start, stop)\<close>: \<^verbatim>\<open>start + self._randbelow(stop - start)\<close> when the
  width is positive, ValueError otherwise. The generator is the argument \<open>r\<close>, its next
  output; \<^verbatim>\<open>_randbelow(n)\<close> is \<open>r mod n\<close>, a number below \<open>n\<close>.
\<close>

definition randrange :: "nat \<Rightarrow> int \<Rightarrow> int \<Rightarrow> error + int" where
  "randrange r start stop =
     (let width = stop - start in
      if width > 0 then Inr (start + int (r mod nat width)) else Inl ValueError)"

text \<open>
  \<^verbatim>\<open>detection_prevention_sleep(self)\<close>:
  \<^verbatim>\<open>self.current_delay = random.randrange(*self._largest_sleep_range(self.search_number))\<close>,
  then \<^verbatim>\<open>time.sleep(self.current_delay)\<close>. The result \<open>Inr d\<close> says that the call has
  slept \<open>d\<close> seconds and returned; \<^verbatim>\<open>time.sleep\<close> raises ValueError on a negative length.
\<close>

definition detection_prevention_sleep ::
  "nat \<Rightarrow> search_engine_scrape \<Rightarrow> (error + int) \<times> search_engine_scrape" where
  "detection_prevention_sleep r self =
     (case largest_sleep_range self (search_number self) of
        Inl e \<Rightarrow> (Inl e, self)
      | Inr (lo, hi) \<Rightarrow>
          (case randrange r lo hi of
             Inl e \<Rightarrow> (Inl e, self)
           | Inr d \<Rightarrow>
               (let s1 = self\<lparr>current_delay := Some d\<rparr> in
                if the (current_delay s1) < 0 then (Inl ValueError, s1)
                else (Inr (the (current_delay s1)), s1))))"

subsection \<open>The base URL of a search engine\<close>

text \<open>
  The file system as the function reads it. \<^verbatim>\<open>os.path.exists\<close> and \<^verbatim>\<open>open\<close> take a
  path or, for an integer, a file descriptor (a boolean is the integer 0 or 1), and raise
  TypeError on a dictionary. A file is the text that \<^verbatim>\<open>read()\<close> returns in text mode.
  The empty path does not exist.
\<close>

datatype pathlike = Path string | Fd int

datatype fs_entry = File string | Directory

type_synonym filesystem = "pathlike \<rightharpoonup> fs_entry"

fun as_path :: "cfg_val \<Rightarrow> error + pathlike" where
  "as_path (CStr p) = Inr (Path p)"
| "as_path (CInt i) = Inr (Fd i)"
| "as_path (CBool b) = Inr (Fd (if b then 1 else 0))"
| "as_path (CRanges d) = Inl TypeError"

definition path_exists :: "filesystem \<Rightarrow> pathlike \<Rightarrow> bool" where
  "path_exists fs p = (p \<noteq> Path [] \<and> fs p \<noteq> None)"

text \<open>\<^verbatim>\<open>s.split('\n')\<close>: the pieces between the newlines, the empty ones included.\<close>

fun split_newline :: "string \<Rightarrow> string list" where
  "split_newline [] = [[]]"
| "split_newline (c # cs) =
     (if c = CHR 0x0A then [] # split_newline cs
      else (case split_newline cs of [] \<Rightarrow> [[c]] | l # ls \<Rightarrow> (c # l) # ls))"

text \<open>
  \<^verbatim>\<open>random.choice(seq)\<close>: \<^verbatim>\<open>seq[self._randbelow(len(seq))]\<close>, IndexError on an empty
  sequence. The generator is the argument \<open>r\<close>, as in \<open>randrange\<close>.
\<close>

definition choice :: "nat \<Rightarrow> 'a list \<Rightarrow> error + 'a" where
  "choice r seq = (if seq = [] then Inl IndexError else Inr (seq ! (r mod length seq)))"

text \<open>The truth value of \<^verbatim>\<open>config.get(key, None)\<close>: \<^verbatim>\<open>None\<close> is false.\<close>

definition present :: "cfg_val option \<Rightarrow> bool" where
  "present v = (case v of None \<Rightarrow> False | Some x \<Rightarrow> truthy x)"

definition SEARCH_MODES :: "string list" where
  "SEARCH_MODES = [''http'', ''selenium'', ''http-async'']"

text \<open>
  \<^verbatim>\<open>get_base_search_url_by_search_engine(config, search_engine_name, search_mode)\<close>,
  with the file system and the random generator as arguments. The result is the value
  returned, \<open>None\<close> for Python's \<^verbatim>\<open>None\<close>.
\<close>

definition get_base_search_url_by_search_engine ::
  "filesystem \<Rightarrow> nat \<Rightarrow> config \<Rightarrow> string \<Rightarrow> string \<Rightarrow> error + cfg_val option" where
  "get_base_search_url_by_search_engine fs r cfg engine mode =
     (if mode \<notin> set SEARCH_MODES then Inl AssertionError
      else
        (let specific_base_url = cfg (mode @ ''_'' @ engine @ ''_search_url'');
             specific_base_url =
               (if \<not> present specific_base_url then cfg (engine @ ''_search_url'')
                else specific_base_url);
             ipfile = cfg_get cfg (engine @ ''_ip_file'') (CStr [])
         in case as_path ipfile of
              Inl e \<Rightarrow> Inl e
            | Inr p \<Rightarrow>
                if path_exists fs p then
                  (case fs p of
                     Some (File content) \<Rightarrow>
                       (case choice r (split_newline content) of
                          Inl e \<Rightarrow> Inl e
                        | Inr random_ip \<Rightarrow> Inr (Some (CStr random_ip)))
                   | _ \<Rightarrow> Inl IsADirectoryError)
                else Inr specific_base_url))"

subsection \<open>The worker factory: class ScrapeWorkerFactory\<close>

text \<open>
  A job is a dictionary with the keys \<^verbatim>\<open>query\<close>, \<^verbatim>\<open>page_number\<close>, \<^verbatim>\<open>search_engine\<close>
  and \<^verbatim>\<open>scrape_method\<close>.
\<close>

record job =
  job_query :: string
  job_page_number :: int
  job_search_engine :: string
  job_scrape_method :: string

text \<open>
  The arguments of the constructor are kept as fields, under the name of the field with
  \<open>f_\<close> in front; the factory has the field \<^verbatim>\<open>jobs\<close> besides, a dictionary from a query to
  the list of its page numbers.
\<close>

record factory_args =
  f_config :: config
  f_cache_manager :: "cache_call list option"
  f_mode :: "string option"
  f_proxy :: "proxy_t option"
  f_proxies :: "proxy_t list option"
  f_proxy_quarantine :: "proxy_t list option"
  f_search_engine :: "string option"
  f_session :: "serp list option"
  f_db_lock :: "lock option"
  f_cache_lock :: "lock option"
  f_scraper_search :: "serp list option"
  f_captcha_lock :: "lock option"
  f_progress_queue :: "int list option"
  f_browser_num :: int

record scrape_worker_factory = factory_args +
  f_jobs :: "(string \<times> int list) list"

text \<open>\<^verbatim>\<open>ScrapeWorkerFactory.__init__\<close>: the arguments, and \<^verbatim>\<open>self.jobs = dict()\<close>.\<close>

definition factory_init :: "factory_args \<Rightarrow> scrape_worker_factory" where
  "factory_init a = factory_args.extend a (scrape_worker_factory.fields [])"

text \<open>
  \<^verbatim>\<open>d[k] = v\<close> on a dictionary in insertion order: the value of a key that is there is
  replaced in its place, a new key goes to the end.
\<close>

fun dict_set :: "('k \<times> 'v) list \<Rightarrow> 'k \<Rightarrow> 'v \<Rightarrow> ('k \<times> 'v) list" where
  "dict_set [] k v = [(k, v)]"
| "dict_set ((k', v') # d) k v = (if k' = k then (k, v) # d else (k', v') # dict_set d k v)"

text \<open>\<^verbatim>\<open>is_suitabe(self, job)\<close>.\<close>

definition is_suitabe :: "scrape_worker_factory \<Rightarrow> job \<Rightarrow> bool" where
  "is_suitabe self jb =
     (Some (job_scrape_method jb) = f_mode self \<and> Some (job_search_engine jb) = f_search_engine self)"

text \<open>
  \<^verbatim>\<open>add_job(self, job)\<close>: a query that is not in \<^verbatim>\<open>self.jobs\<close> gets the empty list, then
  \<^verbatim>\<open>self.jobs[query].append(page_number)\<close>.
\<close>

definition add_job :: "scrape_worker_factory \<Rightarrow> job \<Rightarrow> scrape_worker_factory" where
  "add_job self jb =
     (let qry = job_query jb;
          pn = job_page_number jb;
          js = (if qry \<notin> set (dict_keys (f_jobs self)) then dict_set (f_jobs self) qry []
                else f_jobs self)
      in case map_of js qry of
           None \<Rightarrow> self\<lparr>f_jobs := js\<rparr>
         | Some pages \<Rightarrow> self\<lparr>f_jobs := dict_set js qry (pages @ [pn])\<rparr>)"

text \<open>
  \<^verbatim>\<open>get_worker(self)\<close>. The scrapers are built by
  \<^verbatim>\<open>get_selenium_scraper_by_search_engine_name\<close> of \<^verbatim>\<open>GoogleScraper.selenium_mode\<close> and
  by the class \<^verbatim>\<open>HttpScrape\<close> of \<^verbatim>\<open>GoogleScraper.http_mode\<close>, from fields of the factory:
  a worker is the call that is made and the factory whose fields are its arguments. A
  dictionary is true when it is not empty.
\<close>

datatype worker = SeleniumScraper scrape_worker_factory | HttpScrape scrape_worker_factory

definition get_worker :: "scrape_worker_factory \<Rightarrow> worker option" where
  "get_worker self =
     (if f_jobs self \<noteq> [] then
        (if f_mode self = Some ''selenium'' then Some (SeleniumScraper self)
         else if f_mode self = Some ''http'' then Some (HttpScrape self)
         else None)
      else None)"

text \<open>
  A factory for an engine over HTTP, with an empty configuration and no collaborators, and
  a job for an engine over HTTP.
\<close>

definition http_factory :: "string \<Rightarrow> scrape_worker_factory" where
  "http_factory engine =
     factory_init
       \<lparr>f_config = Map.empty, f_cache_manager = None, f_mode = Some ''http'', f_proxy = None,
        f_proxies = None, f_proxy_quarantine = None, f_search_engine = Some engine,
        f_session = None, f_db_lock = None, f_cache_lock = None, f_scraper_search = None,
        f_captcha_lock = None, f_progress_queue = None, f_browser_num = 1\<rparr>"

definition http_job :: "string \<Rightarrow> string \<Rightarrow> int \<Rightarrow> job" where
  "http_job engine q n =
     \<lparr>job_query = q, job_page_number = n, job_search_engine = engine,
      job_scrape_method = ''http''\<rparr>"

text \<open>
  A session of the subclass \<^verbatim>\<open>HttpScrape\<close> as this constructor leaves it for the engine
  \<^verbatim>\<open>google\<close> with an empty configuration and no collaborators; the concrete sessions
  below are updates of it.
\<close>

definition google_scrape :: search_engine_scrape where
  "google_scrape =
     \<lparr>config = Map.empty, cache_manager = None, search_engine_name = ''google'',
      search_type = CStr ''normal'', jobs = [], missed_keywords = {}, num_keywords = 0,
      query = [], pages_per_keyword = [1], search_number = 1, parser = Some [],
      num_results_per_page = 10, start_page_pos = 1, page_number = 1, proxy = None,
      requested_by = ''localhost'', proxies = None, proxy_quarantine = None,
      scraper_search = None, scrape_method = [], startable = True, db_lock = None,
      cache_lock = None, progress_queue = None, session = None, requested_at = None,
      name = ''[google]HttpScrape'', sleeping_ranges = None, timeout = 5,
      status = ''successful'', html = [], keyword_planner = None, current_delay = None\<rparr>"

text \<open>
  The same session wired to its collaborators (an empty database session with its lock, an
  empty progress queue, a cache manager without calls so far), in the middle of a scrape
  over HTTP: the page of the query \<^verbatim>\<open>isabelle\<close> has arrived. \<open>ten_results\<close> stands for
  \<^verbatim>\<open>parse_serp\<close> finding ten results.
\<close>

definition wired_scrape :: search_engine_scrape where
  "wired_scrape =
     google_scrape\<lparr>cache_manager := Some [], scraper_search := Some [], session := Some [],
       db_lock := Some Lock, cache_lock := Some Lock, progress_queue := Some [],
       scrape_method := ''http'', query := ''isabelle'', html := ''<html></html>''\<rparr>"

definition ten_results :: "search_engine_scrape \<Rightarrow> serp" where
  "ten_results self = \<lparr>serp_query = query self, num_results = 10\<rparr>"

section \<open>Properties\<close>

subsection \<open>The sleep-range lookup\<close>

lemma set_dict_keys: "set (dict_keys d) = fst ` set d"
  by (induction d rule: dict_keys.induct) auto

lemma set_sorted_reverse: "set (sorted_reverse ks) = set ks"
  by (simp add: sorted_reverse_def)

lemma sorted_wrt_sorted_reverse: "sorted_wrt (\<lambda>x y. x \<ge> y) (sorted_reverse ks)"
  by (simp add: sorted_reverse_def sorted_wrt_rev)

lemma first_dividing_none:
  "0 \<notin> set s \<Longrightarrow> \<forall>n \<in> set s. \<not> n dvd k \<Longrightarrow> first_dividing d k s = Inr (1, 2)"
  by (induction s) (auto simp: dvd_eq_mod_eq_0)

lemma first_dividing_some:
  assumes "sorted_wrt (\<lambda>x y. x \<ge> y) s" "0 \<notin> set s" "set s \<subseteq> fst ` set d"
    and "\<exists>n \<in> set s. n dvd k"
  shows "\<exists>r. map_of d (Max {n \<in> set s. n dvd k}) = Some r \<and> first_dividing d k s = Inr r"
  using assms
proof (induction s)
  case Nil
  then show ?case by simp
next
  case (Cons n s)
  show ?case
  proof (cases "n dvd k")
    case True
    have "Max {m \<in> set (n # s). m dvd k} = n"
    proof (rule Max_eqI)
      show "finite {m \<in> set (n # s). m dvd k}" by simp
      show "n \<in> {m \<in> set (n # s). m dvd k}" using True by simp
      fix y assume "y \<in> {m \<in> set (n # s). m dvd k}"
      then show "y \<le> n" using Cons.prems(1) by auto
    qed
    moreover have "n \<in> fst ` set d" using Cons.prems(3) by simp
    then have "map_of d n \<noteq> None" by (simp add: map_of_eq_None_iff)
    then obtain r where "map_of d n = Some r" by blast
    ultimately show ?thesis using True Cons.prems(2) by (auto simp: dvd_eq_mod_eq_0)
  next
    case False
    then have ex: "\<exists>m \<in> set s. m dvd k" using Cons.prems(4) by auto
    have eq: "{m \<in> set (n # s). m dvd k} = {m \<in> set s. m dvd k}" using False by auto
    from Cons.IH ex Cons.prems obtain r where
      "map_of d (Max {m \<in> set s. m dvd k}) = Some r" "first_dividing d k s = Inr r"
      by auto
    moreover have "first_dividing d k (n # s) = first_dividing d k s"
      using False Cons.prems(2) by (simp add: dvd_eq_mod_eq_0)
    ultimately show ?thesis unfolding eq by simp
  qed
qed

text \<open>
  Claim C1, as the code has it. For a table of sleeping ranges without the key 0 and a
  search count \<open>k \<ge> 0\<close>: when \<open>k = 0\<close> or no key of the table divides \<open>k\<close>, the lookup
  returns the default range \<open>(1, 2)\<close>; otherwise it returns the range stored under the
  largest key of the table that divides \<open>k\<close>.
\<close>

theorem largest_sleep_range_largest_divisor:
  assumes "sleeping_ranges self = Some (CRanges d)" and "0 \<notin> fst ` set d" and "0 \<le> k"
  shows "(k = 0 \<or> (\<forall>n \<in> fst ` set d. \<not> n dvd k) \<longrightarrow> largest_sleep_range self k = Inr (1, 2)) \<and>
         (1 \<le> k \<and> (\<exists>n \<in> fst ` set d. n dvd k) \<longrightarrow>
            (\<exists>r. map_of d (Max {n \<in> fst ` set d. n dvd k}) = Some r \<and>
                 largest_sleep_range self k = Inr r))"
proof (intro conjI impI)
  assume "k = 0 \<or> (\<forall>n \<in> fst ` set d. \<not> n dvd k)"
  then show "largest_sleep_range self k = Inr (1, 2)"
    using assms
    by (auto simp: largest_sleep_range_def set_sorted_reverse set_dict_keys
        intro!: first_dividing_none)
next
  assume a: "1 \<le> k \<and> (\<exists>n \<in> fst ` set d. n dvd k)"
  let ?s = "sorted_reverse (dict_keys d)"
  have s: "set ?s = fst ` set d" by (simp add: set_sorted_reverse set_dict_keys)
  have "\<exists>r. map_of d (Max {n \<in> set ?s. n dvd k}) = Some r \<and> first_dividing d k ?s = Inr r"
    using a assms(2) by (intro first_dividing_some sorted_wrt_sorted_reverse) (simp_all add: s)
  moreover have "largest_sleep_range self k = first_dividing d k ?s"
    using a assms(1) by (simp add: largest_sleep_range_def)
  ultimately show "\<exists>r. map_of d (Max {n \<in> fst ` set d. n dvd k}) = Some r \<and>
      largest_sleep_range self k = Inr r"
    by (simp add: s)
qed

text \<open>
  The theorem at the table \<^verbatim>\<open>{5: (2, 4), 10: (10, 20)}\<close> and the tenth search: both keys
  divide 10, and the range of the larger one, \<open>(10, 20)\<close>, is returned.
\<close>

theorem largest_sleep_range_largest_divisor_witness:
  "largest_sleep_range
     (google_scrape\<lparr>sleeping_ranges := Some (CRanges [(5, (2, 4)), (10, (10, 20))])\<rparr>) 10
   = Inr (10, 20)"
proof -
  let ?d = "[(5, (2, 4)), (10, (10, 20))] :: range_table"
  let ?self = "google_scrape\<lparr>sleeping_ranges := Some (CRanges ?d)\<rparr>"
  have dv: "{n \<in> fst ` set ?d. n dvd (10::int)} = {5, 10}" by auto
  have "sleeping_ranges ?self = Some (CRanges ?d)" by simp
  moreover have "0 \<notin> fst ` set ?d" by simp
  moreover have "(0::int) \<le> 10" by simp
  ultimately show ?thesis
    using largest_sleep_range_largest_divisor [of ?self ?d 10] unfolding dv by auto
qed

text \<open>
  The claim as the specification words it covers every table. With the key 0 in the table
  and no larger key dividing the search count, the loop reaches \<^verbatim>\<open>search_number % 0\<close>:
  the table \<^verbatim>\<open>{0: (3, 4)}\<close> has no key that divides 1, and the lookup raises
  ZeroDivisionError instead of returning \<open>(1, 2)\<close>.
\<close>

theorem largest_sleep_range_zero_key_counterexample:
  "largest_sleep_range (google_scrape\<lparr>sleeping_ranges := Some (CRanges [(0, (3, 4))])\<rparr>) 1
   = Inl ZeroDivisionError"
  by (simp add: largest_sleep_range_def sorted_reverse_def)

subsection \<open>Paging\<close>

text \<open>
  Claim C10. A call of \<^verbatim>\<open>next_page\<close> adds exactly one to \<open>start_page_pos\<close>, leaves
  \<open>page_number\<close> as it was, and changes no other field: putting the old value of
  \<open>start_page_pos\<close> back gives the session before the call.
\<close>

theorem next_page_frame:
  "start_page_pos (next_page self) = start_page_pos self + 1 \<and>
   page_number (next_page self) = page_number self \<and>
   (next_page self)\<lparr>start_page_pos := start_page_pos self\<rparr> = self"
  by (simp add: next_page_def)

subsection \<open>The constructor\<close>

lemma lower_Google: "lower ''Google'' = ''google''"
  by code_simp

lemma init_google_scrape:
  "init (default_args Map.empty ''Google'' ''HttpScrape'') = Inr google_scrape"
  by (simp add: init_def init_object_def default_args_def google_scrape_def cfg_get_def
      init_start_page_pos_def lower_Google)

lemma init_Inr_object:
  assumes "init a = Inr self"
  shows "\<exists>engine per_page spp. self = init_object a engine per_page spp"
  using assms unfolding init_def by (auto split: option.splits if_splits sum.splits)

lemma init_fields:
  assumes "init a = Inr self"
  shows "status self = ''successful''" and "startable self"
    and "page_number self = start_page_pos self"
    and "search_number self = 1" and "current_delay self = None"
  using init_Inr_object [OF assms] by (auto simp: init_object_def)

subsection \<open>The status field\<close>

lemma str_int_429: "str_int 429 = ''429''"
  by code_simp

text \<open>
  No other method of the class assigns the status: paging, the pre-flight check, storing,
  caching, the work after a search and the sleep leave it as it is.
\<close>

lemma status_unchanged_elsewhere:
  "status (next_page self) = status self"
  "status (before_search proxy_check self) = status self"
  "status (snd (store parse_serp self)) = status self"
  "status (snd (cache_results self)) = status self"
  "status (snd (detection_prevention_sleep r self)) = status self"
  by (simp_all add: next_page_def before_search_def store_def cache_results_def
      detection_prevention_sleep_def Let_def split: option.splits sum.splits prod.splits)

lemma status_after_search: "status (snd (after_search parse_serp self)) = status self"
proof -
  let ?s1 = "self\<lparr>search_number := search_number self + 1\<rparr>"
  obtain res s2 where st: "store parse_serp ?s1 = (res, s2)"
    by (cases "store parse_serp ?s1") auto
  have s2: "status s2 = status self"
    using status_unchanged_elsewhere(3) [of parse_serp ?s1] st by simp
  show ?thesis
  proof (cases res)
    case (Inl e)
    then show ?thesis using st s2 by (simp add: after_search_def Let_def)
  next
    case (Inr stored)
    let ?s3 = "case progress_queue s2 of None \<Rightarrow> s2 | Some q \<Rightarrow> s2\<lparr>progress_queue := Some (q @ [1])\<rparr>"
    have "status ?s3 = status self" using s2 by (simp split: option.splits)
    moreover have "after_search parse_serp self = cache_results ?s3"
      using st Inr by (simp add: after_search_def Let_def)
    ultimately show ?thesis using status_unchanged_elsewhere(4) [of ?s3] by simp
  qed
qed

text \<open>
  Claim C5, as the code has it. The status is a string, not one of four values:
  the constructor sets it to \<^verbatim>\<open>'successful'\<close>, and \<^verbatim>\<open>handle_request_denied\<close> sets it to
  \<^verbatim>\<open>'Malicious request detected: '\<close> followed by the status code, which is none of
  \<^verbatim>\<open>running\<close>, \<^verbatim>\<open>successful\<close>, \<^verbatim>\<open>failed\<close>, \<^verbatim>\<open>proxy_exhausted\<close>.
\<close>

theorem status_after_init_and_request_denied:
  "(init a = Inr self \<longrightarrow> status self = ''successful'') \<and>
   status (handle_request_denied self status_code) =
     ''Malicious request detected: '' @ str_int status_code \<and>
   status (handle_request_denied self status_code) \<notin>
     {''running'', ''successful'', ''failed'', ''proxy_exhausted''}"
  by (simp add: handle_request_denied_def init_fields)

theorem status_after_init_and_request_denied_witness:
  "init (default_args Map.empty ''Google'' ''HttpScrape'') = Inr google_scrape \<and>
   status google_scrape = ''successful'' \<and>
   status (handle_request_denied google_scrape 429) = ''Malicious request detected: 429''"
  using status_after_init_and_request_denied
    [of "default_args Map.empty ''Google'' ''HttpScrape''" google_scrape 429]
  by (simp add: init_google_scrape str_int_429)

text \<open>
  The claim as the specification words it fails after a denied request: for the status
  code 429 the status is not one of the four values.
\<close>

theorem status_request_denied_counterexample:
  "status (handle_request_denied google_scrape 429) \<notin>
     {''running'', ''successful'', ''failed'', ''proxy_exhausted''}"
  by (simp add: handle_request_denied_def)

subsection \<open>The pre-flight proxy check\<close>

text \<open>
  Claim C6. When proxy checking is enabled (the key \<^verbatim>\<open>check_proxies\<close> is absent or
  true), a proxy is assigned and the check of that proxy fails, \<^verbatim>\<open>before_search\<close> sets
  \<open>startable\<close> to false and changes nothing else; in every other case it leaves the session
  as it is. The constructor sets \<open>startable\<close> to true.
\<close>

theorem before_search_startable:
  "(truthy (cfg_get (config self) ''check_proxies'' (CBool True)) \<and> proxy self = Some p \<and>
      \<not> proxy_check self p \<longrightarrow>
      before_search proxy_check self = self\<lparr>startable := False\<rparr>) \<and>
   (\<not> truthy (cfg_get (config self) ''check_proxies'' (CBool True)) \<or> proxy self = None \<or>
      proxy_check self (the (proxy self)) \<longrightarrow>
      before_search proxy_check self = self) \<and>
   (init a = Inr self \<longrightarrow> startable self)"
  by (auto simp: before_search_def init_fields)

theorem before_search_startable_witness:
  "\<not> startable (before_search (\<lambda>s p. False)
       (google_scrape\<lparr>proxy := Some \<lparr>proto = ''socks5'', host = ''10.0.0.1'', port = ''1080'',
          username = [], password = []\<rparr>\<rparr>)) \<and>
   before_search (\<lambda>s p. False) google_scrape = google_scrape \<and>
   startable google_scrape"
proof -
  let ?p = "\<lparr>proto = ''socks5'', host = ''10.0.0.1'', port = ''1080'', username = [], password = []\<rparr>"
  let ?a = "default_args Map.empty ''Google'' ''HttpScrape''"
  have "\<not> startable (before_search (\<lambda>s p. False) (google_scrape\<lparr>proxy := Some ?p\<rparr>))"
    using before_search_startable [of "google_scrape\<lparr>proxy := Some ?p\<rparr>" ?p "\<lambda>s p. False" ?a]
    by (simp add: cfg_get_def google_scrape_def)
  moreover have "before_search (\<lambda>s p. False) google_scrape = google_scrape \<and> startable google_scrape"
    using before_search_startable [of google_scrape ?p "\<lambda>s p. False" ?a]
    by (simp add: google_scrape_def init_google_scrape [unfolded google_scrape_def])
  ultimately show ?thesis by simp
qed

subsection \<open>After a search\<close>

lemma store_search_number: "search_number (snd (store parse_serp self)) = search_number self"
  by (simp add: store_def Let_def split: option.splits)

lemma store_progress_queue: "progress_queue (snd (store parse_serp self)) = progress_queue self"
  by (simp add: store_def Let_def split: option.splits)

lemma store_cache_manager: "cache_manager (snd (store parse_serp self)) = cache_manager self"
  by (simp add: store_def Let_def split: option.splits)

lemma store_key:
  "query (snd (store parse_serp self)) = query self \<and>
   search_engine_name (snd (store parse_serp self)) = search_engine_name self \<and>
   scrape_method (snd (store parse_serp self)) = scrape_method self \<and>
   page_number (snd (store parse_serp self)) = page_number self"
  by (simp add: store_def Let_def split: option.splits)

lemma store_returns:
  assumes "session self \<noteq> None" "html self = [] \<or> parser self \<noteq> None"
    and "db_lock self \<noteq> None" "scraper_search self \<noteq> None"
  shows "\<exists>stored. fst (store parse_serp self) = Inr stored"
  using assms by (auto simp: store_def Let_def split: option.splits)

text \<open>
  \<^verbatim>\<open>after_search\<close> returns when the collaborators it calls are there: the database
  session, its lock, the \<^verbatim>\<open>scraper_search\<close> object and the cache manager, and a parser
  when there is a page to parse.
\<close>

lemma after_search_returns:
  assumes "session self \<noteq> None" "html self = [] \<or> parser self \<noteq> None"
    and "db_lock self \<noteq> None" "scraper_search self \<noteq> None" "cache_manager self \<noteq> None"
  shows "fst (after_search parse_serp self) = None"
proof -
  let ?s1 = "self\<lparr>search_number := search_number self + 1\<rparr>"
  obtain stored where "fst (store parse_serp ?s1) = Inr stored"
    using store_returns [of ?s1 parse_serp] assms by auto
  then obtain s2 where st: "store parse_serp ?s1 = (Inr stored, s2)"
    by (cases "store parse_serp ?s1") auto
  have "cache_manager s2 \<noteq> None"
    using store_cache_manager [of parse_serp ?s1] st assms(5) by simp
  then show ?thesis
    by (auto simp: after_search_def Let_def st cache_results_def split: option.splits)
qed

text \<open>
  Claim C7. When \<^verbatim>\<open>after_search\<close> has run (it returns without an exception), the search
  counter is one more than before, the progress queue, when there is one, holds exactly one
  more item, the unit 1, at its end, and the cache manager has received exactly one more
  call, whose key is the session's query, search engine, scrape method and page number.
\<close>

theorem after_search_effects:
  assumes "after_search parse_serp self = (None, self')"
  shows "search_number self' = search_number self + 1 \<and>
         progress_queue self' = map_option (\<lambda>q. q @ [1]) (progress_queue self) \<and>
         (\<exists>calls. cache_manager self = Some calls \<and>
            cache_manager self' =
              Some (calls @
                [\<lparr>cached_parser = parser self', cached_query = query self,
                  cached_search_engine = search_engine_name self,
                  cached_scrape_method = scrape_method self,
                  cached_page_number = page_number self\<rparr>]))"
proof -
  let ?s1 = "self\<lparr>search_number := search_number self + 1\<rparr>"
  obtain res s2 where st: "store parse_serp ?s1 = (res, s2)"
    by (cases "store parse_serp ?s1") auto
  obtain stored where res: "res = Inr stored"
    using assms st by (cases res) (auto simp: after_search_def Let_def)
  let ?s3 = "case progress_queue s2 of None \<Rightarrow> s2 | Some q \<Rightarrow> s2\<lparr>progress_queue := Some (q @ [1])\<rparr>"
  have cr: "cache_results ?s3 = (None, self')"
    using assms st res by (simp add: after_search_def Let_def)
  have s2: "search_number s2 = search_number self + 1" "progress_queue s2 = progress_queue self"
    "cache_manager s2 = cache_manager self" "query s2 = query self"
    "search_engine_name s2 = search_engine_name self" "scrape_method s2 = scrape_method self"
    "page_number s2 = page_number self"
    using store_search_number [of parse_serp ?s1] store_progress_queue [of parse_serp ?s1]
      store_cache_manager [of parse_serp ?s1] store_key [of parse_serp ?s1] st
    by simp_all
  have s3: "search_number ?s3 = search_number self + 1"
    "progress_queue ?s3 = map_option (\<lambda>q. q @ [1]) (progress_queue self)"
    "cache_manager ?s3 = cache_manager self" "query ?s3 = query self"
    "search_engine_name ?s3 = search_engine_name self" "scrape_method ?s3 = scrape_method self"
    "page_number ?s3 = page_number self"
    using s2 by (simp_all split: option.splits)
  obtain calls where calls: "cache_manager ?s3 = Some calls"
    using cr by (cases "cache_manager ?s3") (simp_all add: cache_results_def)
  have self': "self' = ?s3\<lparr>cache_manager :=
      Some (calls @
        [\<lparr>cached_parser = parser ?s3, cached_query = query ?s3,
          cached_search_engine = search_engine_name ?s3,
          cached_scrape_method = scrape_method ?s3,
          cached_page_number = page_number ?s3\<rparr>])\<rparr>"
    using cr calls by (simp add: cache_results_def)
  have "search_number self' = search_number self + 1"
    by (subst self') (simp add: s3)
  moreover have "progress_queue self' = map_option (\<lambda>q. q @ [1]) (progress_queue self)"
    by (subst self') (simp add: s3)
  moreover have "parser self' = parser ?s3"
    by (subst self') simp
  then have "cache_manager self' =
      Some (calls @
        [\<lparr>cached_parser = parser self', cached_query = query self,
          cached_search_engine = search_engine_name self,
          cached_scrape_method = scrape_method self,
          cached_page_number = page_number self\<rparr>])"
    by (subst self') (simp add: s3)
  moreover have "cache_manager self = Some calls"
    using calls s3(3) by simp
  ultimately show ?thesis by simp
qed

theorem after_search_effects_witness:
  "fst (after_search ten_results wired_scrape) = None \<and>
   search_number (snd (after_search ten_results wired_scrape)) = 2 \<and>
   progress_queue (snd (after_search ten_results wired_scrape)) = Some [1] \<and>
   cache_manager (snd (after_search ten_results wired_scrape)) =
     Some [\<lparr>cached_parser = Some ''<html></html>'', cached_query = ''isabelle'',
            cached_search_engine = ''google'', cached_scrape_method = ''http'',
            cached_page_number = 1\<rparr>]"
proof -
  let ?self' = "snd (after_search ten_results wired_scrape)"
  have r: "fst (after_search ten_results wired_scrape) = None"
    by (rule after_search_returns) (simp_all add: wired_scrape_def google_scrape_def)
  then have eq: "after_search ten_results wired_scrape = (None, ?self')"
    by (metis prod.collapse)
  have p: "parser ?self' = Some ''<html></html>''"
    by (simp add: after_search_def store_def cache_results_def Let_def wired_scrape_def
        google_scrape_def)
  show ?thesis
    using after_search_effects [OF eq] r p
    by (simp add: wired_scrape_def google_scrape_def)
qed

subsection \<open>The sleep against detection\<close>







subsection \<open>The base URL of a search engine\<close>

lemma split_newline_not_Nil: "split_newline s \<noteq> []"
  by (induction s) (auto split: list.splits)

text \<open>
  With an IP file that exists, the result is a piece of the file's text between two
  newlines, whatever URLs the configuration holds.
\<close>

lemma ip_file_piece_chosen:
  assumes "mode \<in> set SEARCH_MODES"
    and "as_path (cfg_get cfg (engine @ ''_ip_file'') (CStr [])) = Inr p"
    and "p \<noteq> Path []" and "fs p = Some (File content)"
  shows "get_base_search_url_by_search_engine fs r cfg engine mode =
           Inr (Some (CStr (split_newline content ! (r mod length (split_newline content)))))"
    and "split_newline content ! (r mod length (split_newline content)) \<in> set (split_newline content)"
  using assms split_newline_not_Nil [of content]
  by (simp_all add: get_base_search_url_by_search_engine_def Let_def path_exists_def choice_def)

text \<open>
  Claim C2, as the code has it. For a valid search mode and an engine whose IP file does
  not exist: the URL configured for the mode and the engine, when it is there and not
  empty; otherwise the URL configured for the engine, when it is there; otherwise
  \<^verbatim>\<open>None\<close>. There is no third, global URL.
\<close>

theorem base_search_url_precedence:
  assumes "mode \<in> set SEARCH_MODES"
    and "as_path (cfg_get cfg (engine @ ''_ip_file'') (CStr [])) = Inr p"
    and "\<not> path_exists fs p"
  shows "(\<forall>u. cfg (mode @ ''_'' @ engine @ ''_search_url'') = Some u \<and> truthy u \<longrightarrow>
            get_base_search_url_by_search_engine fs r cfg engine mode = Inr (Some u)) \<and>
         (\<not> present (cfg (mode @ ''_'' @ engine @ ''_search_url'')) \<longrightarrow>
            get_base_search_url_by_search_engine fs r cfg engine mode =
              Inr (cfg (engine @ ''_search_url'')))"
  using assms
  by (simp add: get_base_search_url_by_search_engine_def Let_def present_def)

text \<open>
  The theorem at the example of the specification: with the keys
  \<^verbatim>\<open>http_google_search_url\<close> and \<^verbatim>\<open>google_search_url\<close>, the mode \<^verbatim>\<open>http\<close> and the
  engine \<^verbatim>\<open>google\<close>, the URL of the first key is returned; without the first key, the URL
  of the second.
\<close>

theorem base_search_url_precedence_witness:
  "get_base_search_url_by_search_engine Map.empty 0
     [''http_google_search_url'' \<mapsto> CStr ''https://a.example/search?'',
      ''google_search_url'' \<mapsto> CStr ''https://b.example/search?''] ''google'' ''http''
   = Inr (Some (CStr ''https://a.example/search?'')) \<and>
   get_base_search_url_by_search_engine Map.empty 0
     [''google_search_url'' \<mapsto> CStr ''https://b.example/search?''] ''google'' ''http''
   = Inr (Some (CStr ''https://b.example/search?''))"
proof -
  let ?c1 = "[''http_google_search_url'' \<mapsto> CStr ''https://a.example/search?'',
      ''google_search_url'' \<mapsto> CStr ''https://b.example/search?'']"
  let ?c2 = "[''google_search_url'' \<mapsto> CStr ''https://b.example/search?'']"
  have m: "''http'' \<in> set SEARCH_MODES" by (simp add: SEARCH_MODES_def)
  have p1: "as_path (cfg_get ?c1 (''google'' @ ''_ip_file'') (CStr [])) = Inr (Path [])"
    by (simp add: cfg_get_def)
  have p2: "as_path (cfg_get ?c2 (''google'' @ ''_ip_file'') (CStr [])) = Inr (Path [])"
    by (simp add: cfg_get_def)
  have e: "\<not> path_exists Map.empty (Path [])" by (simp add: path_exists_def)
  have "get_base_search_url_by_search_engine Map.empty 0 ?c1 ''google'' ''http''
      = Inr (Some (CStr ''https://a.example/search?''))"
    using base_search_url_precedence [OF m p1 e, of 0] by simp
  moreover have "get_base_search_url_by_search_engine Map.empty 0 ?c2 ''google'' ''http''
      = Inr (Some (CStr ''https://b.example/search?''))"
    using base_search_url_precedence [OF m p2 e, of 0] by (simp add: present_def)
  ultimately show ?thesis by simp
qed

text \<open>
  The claim as the specification words it fails in three places. With neither key in the
  configuration the result is \<^verbatim>\<open>None\<close>, not a global default URL. With the URL of the mode
  and the engine configured and an IP file that exists, the result is a line of the file,
  not that URL. With the URL of the mode and the engine configured as the empty string,
  the result is the URL of the engine.
\<close>

theorem base_search_url_counterexample:
  "get_base_search_url_by_search_engine Map.empty 0 Map.empty ''google'' ''http'' = Inr None \<and>
   get_base_search_url_by_search_engine [Path ''ips.txt'' \<mapsto> File ''10.0.0.1''] 0
     [''http_google_search_url'' \<mapsto> CStr ''https://a.example/search?'',
      ''google_ip_file'' \<mapsto> CStr ''ips.txt''] ''google'' ''http''
   = Inr (Some (CStr ''10.0.0.1'')) \<and>
   get_base_search_url_by_search_engine Map.empty 0
     [''http_google_search_url'' \<mapsto> CStr [],
      ''google_search_url'' \<mapsto> CStr ''https://b.example/search?''] ''google'' ''http''
   = Inr (Some (CStr ''https://b.example/search?''))"
  by (simp add: get_base_search_url_by_search_engine_def SEARCH_MODES_def Let_def present_def
      cfg_get_def path_exists_def choice_def)

text \<open>
  Claim C4 at a file with the single line \<^verbatim>\<open>10.0.0.1\<close> and the newline that ends it.
  \<^verbatim>\<open>split('\n')\<close> gives the line and the empty string after the newline, and the draw 1
  picks the empty string: the base URL returned is empty, which is no line of the file
  that is not empty.
\<close>

theorem ip_file_trailing_newline_empty_url:
  "get_base_search_url_by_search_engine
     [Path ''ips.txt'' \<mapsto> File (''10.0.0.1'' @ [CHR 0x0A])] 1
     [''google_search_url'' \<mapsto> CStr ''https://www.google.com/search?'',
      ''google_ip_file'' \<mapsto> CStr ''ips.txt''] ''google'' ''http''
   = Inr (Some (CStr []))"
  by (simp add: get_base_search_url_by_search_engine_def SEARCH_MODES_def Let_def present_def
      cfg_get_def path_exists_def choice_def)

subsection \<open>The worker factory\<close>

lemma factory_init_fields:
  "f_jobs (factory_init a) = []" "f_mode (factory_init a) = f_mode a"
  "f_search_engine (factory_init a) = f_search_engine a"
  by (simp_all add: factory_init_def factory_args.defs scrape_worker_factory.defs)

lemma map_fst_dict_set:
  "map fst (dict_set d k v) = (if k \<in> fst ` set d then map fst d else map fst d @ [k])"
  by (induction d k v rule: dict_set.induct) auto

lemma map_of_dict_set: "map_of (dict_set d k v) = (map_of d)(k \<mapsto> v)"
  by (induction d k v rule: dict_set.induct) auto

lemma fst_set_dict_set: "fst ` set (dict_set d k v) = insert k (fst ` set d)"
  using arg_cong [OF map_fst_dict_set [of d k v], of set] by (auto split: if_splits)

lemma map_of_absent: "k \<notin> fst ` set d \<Longrightarrow> map_of d k = None"
  by (simp add: map_of_eq_None_iff)

lemma add_job_jobs:
  "f_jobs (add_job self jb) =
     (if job_query jb \<in> fst ` set (f_jobs self)
      then dict_set (f_jobs self) (job_query jb)
             (the (map_of (f_jobs self) (job_query jb)) @ [job_page_number jb])
      else dict_set (dict_set (f_jobs self) (job_query jb) []) (job_query jb)
             [job_page_number jb])"
proof (cases "job_query jb \<in> fst ` set (f_jobs self)")
  case True
  then obtain pages where "map_of (f_jobs self) (job_query jb) = Some pages"
    by (cases "map_of (f_jobs self) (job_query jb)") (simp_all add: map_of_eq_None_iff)
  then show ?thesis using True by (simp add: add_job_def Let_def set_dict_keys)
next
  case False
  then show ?thesis
    by (simp add: add_job_def Let_def set_dict_keys map_of_dict_set)
qed

lemma add_job_keys:
  "map fst (f_jobs (add_job self jb)) =
     (if job_query jb \<in> fst ` set (f_jobs self) then map fst (f_jobs self)
      else map fst (f_jobs self) @ [job_query jb])"
  by (simp add: add_job_jobs map_fst_dict_set fst_set_dict_set)

lemma add_job_pages:
  "map_of (f_jobs (add_job self jb)) =
     (map_of (f_jobs self))
       (job_query jb \<mapsto>
          (case map_of (f_jobs self) (job_query jb) of None \<Rightarrow> [] | Some pages \<Rightarrow> pages) @
          [job_page_number jb])"
proof (cases "job_query jb \<in> fst ` set (f_jobs self)")
  case True
  then obtain pages where "map_of (f_jobs self) (job_query jb) = Some pages"
    by (cases "map_of (f_jobs self) (job_query jb)") (simp_all add: map_of_eq_None_iff)
  then show ?thesis using True by (simp add: add_job_jobs map_of_dict_set)
next
  case False
  then show ?thesis by (simp add: add_job_jobs map_of_dict_set map_of_absent)
qed

lemma add_job_frame:
  "f_mode (add_job self jb) = f_mode self" "f_search_engine (add_job self jb) = f_search_engine self"
  by (simp_all add: add_job_def Let_def split: option.splits)

lemma add_job_not_empty: "f_jobs (add_job self jb) \<noteq> []"
  using add_job_keys [of self jb] by (auto split: if_splits)

lemma foldl_add_job_frame:
  "f_mode (foldl add_job self jbs) = f_mode self \<and>
   f_search_engine (foldl add_job self jbs) = f_search_engine self"
  by (induction jbs rule: rev_induct) (simp_all add: add_job_frame)

lemma foldl_add_job_keys:
  assumes "f_jobs self = []"
  shows "map fst (f_jobs (foldl add_job self jbs)) = rev (remdups (rev (map job_query jbs)))"
proof (induction jbs rule: rev_induct)
  case Nil
  then show ?case using assms by simp
next
  case (snoc jb jbs)
  have "fst ` set (f_jobs (foldl add_job self jbs)) = set (map job_query jbs)"
    using arg_cong [OF snoc.IH, of set] by simp
  then show ?case using snoc.IH by (simp add: add_job_keys)
qed

lemma foldl_add_job_pages:
  assumes "f_jobs self = []"
  shows "map_of (f_jobs (foldl add_job self jbs)) q =
           (if q \<in> set (map job_query jbs)
            then Some (map job_page_number (filter (\<lambda>jb. job_query jb = q) jbs)) else None)"
proof (induction jbs rule: rev_induct)
  case Nil
  then show ?case using assms by simp
next
  case (snoc jb jbs)
  then show ?case by (force simp: add_job_pages filter_empty_conv image_iff)
qed

lemma foldl_add_job_not_empty: "f_jobs (foldl add_job self jbs) \<noteq> [] \<longleftrightarrow> f_jobs self \<noteq> [] \<or> jbs \<noteq> []"
  by (induction jbs rule: rev_induct) (simp_all add: add_job_not_empty)

text \<open>
  Claim C3, as the code has it. The loop that hands the jobs to the factories is outside
  \<^verbatim>\<open>scraping.py\<close>; it calls \<^verbatim>\<open>add_job\<close> on a factory for the jobs for which
  \<^verbatim>\<open>is_suitabe\<close> holds, in their order. A job is suitable for a factory exactly when its
  scrape method and search engine are the factory's mode and engine. In the batch of a
  factory that started without jobs, the queries are those of its jobs, each once, in the
  order in which they were first seen, and the pages recorded for a query are the page
  numbers of the jobs with that query, in the order of the jobs and with every repetition
  kept.
\<close>

theorem add_suitable_jobs_batch:
  assumes "f_jobs self = []" and "mine = filter (is_suitabe self) jbs"
  shows "(\<forall>jb. jb \<in> set mine \<longleftrightarrow>
            jb \<in> set jbs \<and> Some (job_scrape_method jb) = f_mode self \<and>
            Some (job_search_engine jb) = f_search_engine self) \<and>
         f_mode (foldl add_job self mine) = f_mode self \<and>
         f_search_engine (foldl add_job self mine) = f_search_engine self \<and>
         map fst (f_jobs (foldl add_job self mine)) = rev (remdups (rev (map job_query mine))) \<and>
         (\<forall>q. map_of (f_jobs (foldl add_job self mine)) q =
            (if q \<in> set (map job_query mine)
             then Some (map job_page_number (filter (\<lambda>jb. job_query jb = q) mine))
             else None))"
proof (intro conjI allI)
  fix jb
  show "jb \<in> set mine \<longleftrightarrow>
      jb \<in> set jbs \<and> Some (job_scrape_method jb) = f_mode self \<and>
      Some (job_search_engine jb) = f_search_engine self"
    unfolding assms(2) by (simp add: is_suitabe_def)
next
  show "f_mode (foldl add_job self mine) = f_mode self"
    using foldl_add_job_frame [of self mine] by blast
next
  show "f_search_engine (foldl add_job self mine) = f_search_engine self"
    using foldl_add_job_frame [of self mine] by blast
next
  show "map fst (f_jobs (foldl add_job self mine)) = rev (remdups (rev (map job_query mine)))"
    by (rule foldl_add_job_keys [OF assms(1)])
next
  fix q
  show "map_of (f_jobs (foldl add_job self mine)) q =
      (if q \<in> set (map job_query mine)
       then Some (map job_page_number (filter (\<lambda>jb. job_query jb = q) mine))
       else None)"
    by (rule foldl_add_job_pages [OF assms(1)])
qed

text \<open>
  The theorem at the example of the specification: of the jobs \<^verbatim>\<open>(q1, 1)\<close> and
  \<^verbatim>\<open>(q1, 2)\<close> for google and \<^verbatim>\<open>(q2, 1)\<close> for bing, the google factory takes the first
  two, and its batch has the query \<^verbatim>\<open>q1\<close> with the pages 1 and 2.
\<close>

theorem add_suitable_jobs_batch_witness:
  "filter (is_suitabe (http_factory ''google''))
     [http_job ''google'' ''q1'' 1, http_job ''google'' ''q1'' 2, http_job ''bing'' ''q2'' 1]
     = [http_job ''google'' ''q1'' 1, http_job ''google'' ''q1'' 2] \<and>
   map fst (f_jobs (foldl add_job (http_factory ''google'')
     [http_job ''google'' ''q1'' 1, http_job ''google'' ''q1'' 2])) = [''q1''] \<and>
   map_of (f_jobs (foldl add_job (http_factory ''google'')
     [http_job ''google'' ''q1'' 1, http_job ''google'' ''q1'' 2])) ''q1'' = Some [1, 2]"
proof -
  let ?js = "[http_job ''google'' ''q1'' 1, http_job ''google'' ''q1'' 2,
    http_job ''bing'' ''q2'' 1]"
  let ?mine = "[http_job ''google'' ''q1'' 1, http_job ''google'' ''q1'' 2]"
  have 1: "f_jobs (http_factory ''google'') = []"
    by (simp add: http_factory_def factory_init_fields)
  have 2: "?mine = filter (is_suitabe (http_factory ''google'')) ?js"
    by (simp add: is_suitabe_def http_factory_def factory_init_fields http_job_def)
  have q: "map job_query ?mine = [''q1'', ''q1'']"
    "map job_page_number (filter (\<lambda>jb. job_query jb = ''q1'') ?mine) = [1, 2]"
    by (simp_all add: http_job_def)
  note t = add_suitable_jobs_batch [OF 1 2]
  have k: "map fst (f_jobs (foldl add_job (http_factory ''google'') ?mine)) = [''q1'']"
    using t unfolding q(1) by simp
  have "map_of (f_jobs (foldl add_job (http_factory ''google'') ?mine)) ''q1'' =
      Some (map job_page_number (filter (\<lambda>jb. job_query jb = ''q1'') ?mine))"
    using t unfolding q(1) by simp
  then have p: "map_of (f_jobs (foldl add_job (http_factory ''google'') ?mine)) ''q1'' = Some [1, 2]"
    unfolding q(2) .
  from 2 [symmetric] k p show ?thesis by blast
qed

text \<open>
  The claim as the specification words it has the pages of a query without repetition.
  \<^verbatim>\<open>add_job\<close> appends every page number: two jobs for page 1 of the query \<^verbatim>\<open>q1\<close> leave
  the page twice in the batch.
\<close>

theorem add_job_repeated_page_counterexample:
  "f_jobs (add_job (add_job (http_factory ''google'') (http_job ''google'' ''q1'' 1))
     (http_job ''google'' ''q1'' 1)) = [(''q1'', [1, 1])]"
  by (simp add: http_factory_def factory_init_fields http_job_def add_job_jobs)

text \<open>
  Claim C9. \<^verbatim>\<open>get_worker\<close> returns a worker exactly when the factory has jobs and its
  mode is \<^verbatim>\<open>selenium\<close> or \<^verbatim>\<open>http\<close>, the selenium scraper for the first and the HTTP
  scraper for the second; for the mode \<^verbatim>\<open>http-async\<close> it returns \<^verbatim>\<open>None\<close>. A factory
  has jobs exactly when \<^verbatim>\<open>add_job\<close> has been called on it at least once since its
  construction.
\<close>

theorem get_worker_some_iff:
  "(get_worker self \<noteq> None \<longleftrightarrow>
      f_jobs self \<noteq> [] \<and> (f_mode self = Some ''selenium'' \<or> f_mode self = Some ''http'')) \<and>
   (f_jobs self \<noteq> [] \<and> f_mode self = Some ''selenium'' \<longrightarrow>
      get_worker self = Some (SeleniumScraper self)) \<and>
   (f_jobs self \<noteq> [] \<and> f_mode self = Some ''http'' \<longrightarrow>
      get_worker self = Some (HttpScrape self)) \<and>
   (f_mode self = Some ''http-async'' \<longrightarrow> get_worker self = None) \<and>
   (f_jobs (foldl add_job (factory_init a) jbs) \<noteq> [] \<longleftrightarrow> jbs \<noteq> [])"
  by (simp add: get_worker_def foldl_add_job_not_empty factory_init_fields)

theorem get_worker_some_iff_witness:
  "get_worker (http_factory ''google'') = None \<and>
   get_worker (add_job (http_factory ''google'') (http_job ''google'' ''q1'' 1)) =
     Some (HttpScrape (add_job (http_factory ''google'') (http_job ''google'' ''q1'' 1))) \<and>
   get_worker ((add_job (http_factory ''google'') (http_job ''google'' ''q1'' 1))
     \<lparr>f_mode := Some ''http-async''\<rparr>) = None"
proof -
  let ?f = "add_job (http_factory ''google'') (http_job ''google'' ''q1'' 1)"
  have e: "f_jobs (http_factory ''google'') = []" "f_mode (http_factory ''google'') = Some ''http''"
    by (simp_all add: http_factory_def factory_init_fields)
  have j: "f_jobs ?f \<noteq> []" "f_mode ?f = Some ''http''"
    by (simp_all add: add_job_not_empty add_job_frame e)
  have "get_worker (http_factory ''google'') = None"
    using get_worker_some_iff [of "http_factory ''google''"] e by simp
  moreover have "get_worker ?f = Some (HttpScrape ?f)"
    using get_worker_some_iff [of ?f] j by simp
  moreover have "get_worker (?f\<lparr>f_mode := Some ''http-async''\<rparr>) = None"
    using get_worker_some_iff [of "?f\<lparr>f_mode := Some ''http-async''\<rparr>"] by simp
  ultimately show ?thesis by simp
qed

end
